theory Spec2Isabelle
  imports Complex_Main
begin

section \<open>The example NBI client (examples/nbi\_client\_py/main.py)\<close>

text \<open>
  The client builds protobuf messages from a descriptor set, sends them over a gRPC
  channel and prints the snapshot it fetches. The protobuf and gRPC libraries are not
  part of the repository: what the client asks of them (loading the descriptor set,
  the wire codec, the transport, the formatting of a float) is a parameter of the
  model, collected in the record \<open>runtime\<close>. Everything the client itself does (which
  names it resolves, which messages it builds, which calls it issues and in which
  order, what it prints) is translated from the source.

  Bytes are modelled as lists of \<open>char\<close> (a \<open>char\<close> is one byte).
\<close>

type_synonym bytes = "char list"

text \<open>
  A Python float, which is also a protobuf double: a finite number (positive zero is
  \<open>Num 0\<close>), negative zero, an infinity or not-a-number. The client stores floats and
  formats them; it never computes with them.
\<close>

datatype double = Num real | NegZero | PosInf | NegInf | NaN

subsection \<open>Errors\<close>

text \<open>
  Every exception that can leave the client is a value of \<open>error\<close>.
  \<^item> \<open>SchemaLookupError n\<close>: the \<open>KeyError\<close> raised by the pool's \<open>FindMessageTypeByName\<close>
    and \<open>FindEnumTypeByName\<close> and by the dictionary lookup \<open>values_by_name[n]\<close>;
  \<^item> \<open>RpcError code details\<close>: the \<open>grpc.RpcError\<close> raised by a call, with its status code
    and message (timeouts, transport failures and remote rejections all arrive so);
  \<^item> \<open>DecodeError\<close>: \<open>ParseFromString\<close> rejecting the bytes (inside a call, gRPC turns it
    into an \<open>RpcError\<close>);
  \<^item> \<open>AttributeError\<close>: a field read on a message that has no such field;
  \<^item> \<open>OSError\<close>: the descriptor file cannot be read.
\<close>

datatype error =
    SchemaLookupError string
  | RpcError nat string
  | DecodeError
  | AttributeError string
  | OSError string

subsection \<open>Message contents\<close>

text \<open>
  The fields are those the client writes and reads. A sub-message field that the
  printers read with \<open>getattr\<close> is an \<open>option\<close>: \<open>None\<close> when it is not set. Two fields are called \<open>type\<close> and two
  \<open>transceiver_model_id\<close> in the schema; they carry a suffix here.
\<close>

record cartesian =
  x_m :: double
  y_m :: double
  z_m :: double

record point_axes =
  point :: "cartesian option"

record motion =
  ecef_fixed :: "point_axes option"

record platform_definition =
  name :: string
  type_platform :: string
  motion_source :: int
  coordinates :: "motion option"

record transceiver_model =
  transceiver_model_id :: string

record wireless_device =
  platform :: string
  transceiver_model_id_w :: "transceiver_model option"

record network_interface =
  interface_id :: string
  wireless :: wireless_device

record network_node =
  node_id :: string
  type_node :: string
  node_interface :: "network_interface list"

record bidirectional_link =
  a_network_node_id :: string
  a_tx_interface_id :: string
  a_rx_interface_id :: string
  b_network_node_id :: string
  b_tx_interface_id :: string
  b_rx_interface_id :: string

record scenario_snapshot =
  platforms :: "platform_definition list"
  nodes :: "network_node list"
  links :: "bidirectional_link list"

text \<open>The field values of one message; \<open>Blank\<close> is a message with no field set.\<close>

datatype body =
    Blank
  | PlatformDefinitionB platform_definition
  | NetworkNodeB network_node
  | BidirectionalLinkB bidirectional_link
  | ScenarioSnapshotB scenario_snapshot

subsection \<open>Message classes, messages, calls, the channel\<close>

text \<open>
  A message class is what \<open>factory.GetPrototype\<close> returns for a descriptor \<open>'d\<close> of the
  pool, or the generated class \<open>empty_pb2.Empty\<close>. A message is an instance of its class.
\<close>

datatype 'd msg_class = Prototype 'd | Empty_pb2

record 'd message =
  cls :: "'d msg_class"
  body :: body

text \<open>\<open>cls()\<close>: a fresh instance, no field set.\<close>

definition new :: "'d msg_class \<Rightarrow> 'd message" where
  "new c = \<lparr>cls = c, body = Blank\<rparr>"

text \<open>
  One invocation of a multi-callable: the method path, the request object, its wire
  form, and the timeout passed along.
\<close>

record 'd call =
  method_path :: string
  request :: "'d message"
  wire :: bytes
  deadline :: double

text \<open>
  The channel answers a call with response bytes or with an error; its answer may
  depend on the calls made before (the remote scenario is stateful).
\<close>

type_synonym 'd channel = "'d call list \<Rightarrow> 'd call \<Rightarrow> error + bytes"

subsection \<open>The descriptor pool\<close>

record enum_value_descriptor =
  number :: int

record enum_descriptor =
  values_by_name :: "(string \<times> enum_value_descriptor) list"

record 'd descriptor_pool =
  message_types :: "(string \<times> 'd) list"
  enum_types :: "(string \<times> enum_descriptor) list"

definition FindMessageTypeByName :: "'d descriptor_pool \<Rightarrow> string \<Rightarrow> error + 'd" where
  "FindMessageTypeByName p n =
     (case map_of (message_types p) n of
        None \<Rightarrow> Inl (SchemaLookupError n)
      | Some d \<Rightarrow> Inr d)"

definition FindEnumTypeByName :: "'d descriptor_pool \<Rightarrow> string \<Rightarrow> error + enum_descriptor" where
  "FindEnumTypeByName p n =
     (case map_of (enum_types p) n of
        None \<Rightarrow> Inl (SchemaLookupError n)
      | Some e \<Rightarrow> Inr e)"

text \<open>\<open>d[k]\<close> on a dictionary.\<close>

definition getitem :: "(string \<times> 'v) list \<Rightarrow> string \<Rightarrow> error + 'v" where
  "getitem d k =
     (case map_of d k of
        None \<Rightarrow> Inl (SchemaLookupError k)
      | Some v \<Rightarrow> Inr v)"

datatype 'd message_factory = MessageFactory "'d descriptor_pool"

definition GetPrototype :: "'d message_factory \<Rightarrow> 'd \<Rightarrow> 'd msg_class" where
  "GetPrototype fac d = Prototype d"

subsection \<open>What the libraries and the operating system provide\<close>

text \<open>
  \<^item> \<open>insecure_channel\<close>: \<open>grpc.insecure_channel(endpoint)\<close>;
  \<^item> \<open>load_descriptor_set\<close>: lines 29 to 33 of the source, which read the descriptor file,
    parse it as a \<open>FileDescriptorSet\<close> and add each file to a fresh pool;
  \<^item> \<open>SerializeToString\<close>: the wire form of a message;
  \<^item> \<open>ParseFromString msg data\<close>: the field values \<open>msg\<close> holds after parsing \<open>data\<close>
    into it, or an error;
  \<^item> \<open>format_1f\<close>: the format specification \<open>:.1f\<close> applied to a float.
\<close>

record 'd runtime =
  insecure_channel :: "string \<Rightarrow> 'd channel"
  load_descriptor_set :: "string \<Rightarrow> error + 'd descriptor_pool"
  SerializeToString :: "'d message \<Rightarrow> bytes"
  ParseFromString :: "'d message \<Rightarrow> bytes \<Rightarrow> error + body"
  format_1f :: "double \<Rightarrow> string"

subsection \<open>The client: class DynamicNBI\<close>

record 'd DynamicNBI =
  channel :: "'d channel"
  timeout :: double
  pool :: "'d descriptor_pool"
  factory :: "'d message_factory"
  PlatformDefinition :: "'d msg_class"
  NetworkNode :: "'d msg_class"
  NetworkInterface :: "'d msg_class"
  BidirectionalLink :: "'d msg_class"
  TransceiverModelId :: "'d msg_class"
  ClearScenarioRequest :: "'d msg_class"
  GetScenarioRequest :: "'d msg_class"
  ScenarioSnapshot :: "'d msg_class"
  motion_unknown :: int

text \<open>
  \<open>_msg\<close> (line 52) reads \<open>self.pool\<close> and \<open>self.factory\<close>; the constructor calls it
  before the other attributes exist, so it takes these two.
\<close>

definition DynamicNBI_msg ::
  "'d descriptor_pool \<Rightarrow> 'd message_factory \<Rightarrow> string \<Rightarrow> error + 'd msg_class" where
  "DynamicNBI_msg pool' factory' n =
     (case FindMessageTypeByName pool' n of
        Inl e \<Rightarrow> Inl e
      | Inr d \<Rightarrow> Inr (GetPrototype factory' d))"

text \<open>
  Sequencing of steps that may raise: the first error ends the computation, as an
  uncaught exception does.
\<close>

definition bind_err :: "error + 'a \<Rightarrow> ('a \<Rightarrow> error + 'b) \<Rightarrow> error + 'b" where
  "bind_err m f = (case m of Inl e \<Rightarrow> Inl e | Inr x \<Rightarrow> f x)"

text \<open>The constructor (lines 25 to 50). The first failing step raises.\<close>

definition DynamicNBI_init ::
  "'d runtime \<Rightarrow> 'd channel \<Rightarrow> string \<Rightarrow> double \<Rightarrow> error + 'd DynamicNBI" where
  "DynamicNBI_init rt channel' descriptor_path timeout' =
     bind_err (load_descriptor_set rt descriptor_path) (\<lambda>pool'.
     let factory' = MessageFactory pool' in
     bind_err (DynamicNBI_msg pool' factory'
       ''aalyria.spacetime.api.common.PlatformDefinition'') (\<lambda>PlatformDefinition'.
     bind_err (DynamicNBI_msg pool' factory'
       ''aalyria.spacetime.api.nbi.v1alpha.resources.NetworkNode'') (\<lambda>NetworkNode'.
     bind_err (DynamicNBI_msg pool' factory'
       ''aalyria.spacetime.api.nbi.v1alpha.resources.NetworkInterface'') (\<lambda>NetworkInterface'.
     bind_err (DynamicNBI_msg pool' factory'
       ''aalyria.spacetime.api.nbi.v1alpha.resources.BidirectionalLink'') (\<lambda>BidirectionalLink'.
     bind_err (DynamicNBI_msg pool' factory'
       ''aalyria.spacetime.api.common.TransceiverModelId'') (\<lambda>TransceiverModelId'.
     bind_err (DynamicNBI_msg pool' factory'
       ''aalyria.spacetime.api.nbi.v1alpha.ClearScenarioRequest'') (\<lambda>ClearScenarioRequest'.
     bind_err (DynamicNBI_msg pool' factory'
       ''aalyria.spacetime.api.nbi.v1alpha.GetScenarioRequest'') (\<lambda>GetScenarioRequest'.
     bind_err (DynamicNBI_msg pool' factory'
       ''aalyria.spacetime.api.nbi.v1alpha.ScenarioSnapshot'') (\<lambda>ScenarioSnapshot'.
     bind_err (FindEnumTypeByName pool'
       ''aalyria.spacetime.api.common.PlatformDefinition.MotionSource'') (\<lambda>motion_enum.
     bind_err (getitem (values_by_name motion_enum) ''UNKNOWN_SOURCE'') (\<lambda>v.
     Inr \<lparr>channel = channel', timeout = timeout', pool = pool', factory = factory',
          PlatformDefinition = PlatformDefinition', NetworkNode = NetworkNode',
          NetworkInterface = NetworkInterface', BidirectionalLink = BidirectionalLink',
          TransceiverModelId = TransceiverModelId',
          ClearScenarioRequest = ClearScenarioRequest',
          GetScenarioRequest = GetScenarioRequest', ScenarioSnapshot = ScenarioSnapshot',
          motion_unknown = number v\<rparr>)))))))))))"

text \<open>
  \<open>_parse\<close> (line 55): a fresh instance of \<open>cls\<close>, filled from \<open>data\<close> and returned.
  It does not touch \<open>self\<close>.
\<close>

definition DynamicNBI_parse :: "'d runtime \<Rightarrow> 'd msg_class \<Rightarrow> bytes \<Rightarrow> error + 'd message" where
  "DynamicNBI_parse rt c data =
     (let msg = new c in
      case ParseFromString rt msg data of
        Inl e \<Rightarrow> Inl e
      | Inr b \<Rightarrow> Inr (msg\<lparr>body := b\<rparr>))"

text \<open>
  The state a method runs in: the client object \<open>self\<close>, the calls the process has
  made on the channel so far, and what it has written to standard output (one string
  for each \<open>print\<close>).
\<close>

record 'd world =
  self :: "'d DynamicNBI"
  sent :: "'d call list"
  stdout :: "string list"

text \<open>
  \<open>channel.unary_unary(method, request_serializer, response_deserializer)\<close> applied to
  \<open>(request, timeout)\<close>: the gRPC multi-callable serializes the request and hands it to
  the channel. An error of the channel is raised to the caller. Response bytes go to
  the deserializer; when the deserializer raises, gRPC catches the exception and the
  call raises an \<open>RpcError\<close> with status INTERNAL (code 13) and the details
  \<open>Exception deserializing response!\<close>.
\<close>

definition unary_unary ::
  "'d channel \<Rightarrow> string \<Rightarrow> ('d message \<Rightarrow> bytes) \<Rightarrow> (bytes \<Rightarrow> error + 'd message) \<Rightarrow>
   'd message \<Rightarrow> double \<Rightarrow> 'd call list \<Rightarrow> (error + 'd message) \<times> 'd call list" where
  "unary_unary ch m request_serializer response_deserializer req t hist =
     (let c = \<lparr>method_path = m, request = req, wire = request_serializer req, deadline = t\<rparr> in
      (case ch hist c of
         Inl e \<Rightarrow> Inl e
       | Inr data \<Rightarrow>
           (case response_deserializer data of
              Inl e \<Rightarrow> Inl (RpcError 13 ''Exception deserializing response!'')
            | Inr resp \<Rightarrow> Inr resp),
       hist @ [c]))"

text \<open>\<open>_unary\<close> (line 60).\<close>

definition DynamicNBI_unary ::
  "'d runtime \<Rightarrow> string \<Rightarrow> 'd message \<Rightarrow> 'd msg_class \<Rightarrow> 'd world \<Rightarrow>
   (error + 'd message) \<times> 'd world" where
  "DynamicNBI_unary rt m req response_cls w =
     (let (r, hist) =
        unary_unary (channel (self w)) m (SerializeToString rt)
          (\<lambda>data. DynamicNBI_parse rt response_cls data) req (timeout (self w)) (sent w)
      in (r, w\<lparr>sent := hist\<rparr>))"

text \<open>
  \<open>clear_scenario\<close> (line 68) has no \<open>return\<close>: on success its value is \<open>None\<close>.
\<close>

definition clear_scenario ::
  "'d runtime \<Rightarrow> 'd world \<Rightarrow> (error + 'd message option) \<times> 'd world" where
  "clear_scenario rt w =
     (case DynamicNBI_unary rt
             ''/aalyria.spacetime.api.nbi.v1alpha.ScenarioService/ClearScenario''
             (new (ClearScenarioRequest (self w)))
             Empty_pb2 w of
        (Inl e, w') \<Rightarrow> (Inl e, w')
      | (Inr _, w') \<Rightarrow> (Inr None, w'))"

definition create_platform ::
  "'d runtime \<Rightarrow> string \<Rightarrow> string \<Rightarrow> double \<times> double \<times> double \<Rightarrow> 'd world \<Rightarrow>
   (error + 'd message) \<times> 'd world" where
  "create_platform rt nm typ coords w =
     (let plat = (new (PlatformDefinition (self w)))\<lparr>body := PlatformDefinitionB
            \<lparr>name = nm,
             type_platform = typ,
             motion_source = motion_unknown (self w),
             coordinates = Some \<lparr>ecef_fixed = Some \<lparr>point = Some
               \<lparr>x_m = fst coords, y_m = fst (snd coords), z_m = snd (snd coords)\<rparr>\<rparr>\<rparr>\<rparr>\<rparr>
      in DynamicNBI_unary rt
           ''/aalyria.spacetime.api.nbi.v1alpha.PlatformService/CreatePlatform''
           plat
           (PlatformDefinition (self w)) w)"

definition create_node ::
  "'d runtime \<Rightarrow> string \<Rightarrow> string \<Rightarrow> string \<Rightarrow> string \<Rightarrow> 'd world \<Rightarrow>
   (error + 'd message) \<times> 'd world" where
  "create_node rt node_id' platform_id iface_id transceiver_id' w =
     (let iface = \<lparr>interface_id = iface_id,
                   wireless = \<lparr>platform = platform_id,
                               transceiver_model_id_w =
                                 Some \<lparr>transceiver_model_id = transceiver_id'\<rparr>\<rparr>\<rparr>;
          node = (new (NetworkNode (self w)))\<lparr>body := NetworkNodeB
            \<lparr>node_id = node_id',
             type_node = ''ROUTER'',
             node_interface = [] @ [iface]\<rparr>\<rparr>
      in DynamicNBI_unary rt
           ''/aalyria.spacetime.api.nbi.v1alpha.NetworkNodeService/CreateNode''
           node
           (NetworkNode (self w)) w)"

definition create_link ::
  "'d runtime \<Rightarrow> string \<Rightarrow> string \<Rightarrow> string \<Rightarrow> string \<Rightarrow> 'd world \<Rightarrow>
   (error + 'd message) \<times> 'd world" where
  "create_link rt a_node a_iface b_node b_iface w =
     (let link = (new (BidirectionalLink (self w)))\<lparr>body := BidirectionalLinkB
            \<lparr>a_network_node_id = a_node,
             a_tx_interface_id = a_iface,
             a_rx_interface_id = a_iface,
             b_network_node_id = b_node,
             b_tx_interface_id = b_iface,
             b_rx_interface_id = b_iface\<rparr>\<rparr>
      in DynamicNBI_unary rt
           ''/aalyria.spacetime.api.nbi.v1alpha.NetworkLinkService/CreateLink''
           link
           (BidirectionalLink (self w)) w)"

definition get_scenario ::
  "'d runtime \<Rightarrow> 'd world \<Rightarrow> (error + 'd message) \<times> 'd world" where
  "get_scenario rt w =
     DynamicNBI_unary rt
       ''/aalyria.spacetime.api.nbi.v1alpha.ScenarioService/GetScenario''
       (new (GetScenarioRequest (self w)))
       (ScenarioSnapshot (self w)) w"

subsection \<open>The snapshot printers\<close>

text \<open>
  The printers read protobuf messages. In the records above an \<open>option\<close> field says
  whether the sub-message is set. Reading a sub-message field never fails and never
  yields \<open>None\<close>: when the field is not set, the read yields the default instance of
  the field's type, whose own sub-messages are not set, whose numbers are zero and
  whose strings are empty.
\<close>

definition default_cartesian :: cartesian where
  "default_cartesian = \<lparr>x_m = Num 0, y_m = Num 0, z_m = Num 0\<rparr>"

definition default_point_axes :: point_axes where
  "default_point_axes = \<lparr>point = None\<rparr>"

definition default_motion :: motion where
  "default_motion = \<lparr>ecef_fixed = None\<rparr>"


text \<open>
  \<open>getattr(obj, field, None)\<close> for a sub-message field: \<open>None\<close> has no attribute, so the
  result is the default \<open>None\<close>; a message has the attribute, and the result is the
  sub-message, or its default instance when it is not set.
\<close>

definition getattr_message :: "'m option \<Rightarrow> ('m \<Rightarrow> 's option) \<Rightarrow> 's \<Rightarrow> 's option" where
  "getattr_message obj field dflt =
     (case obj of
        None \<Rightarrow> None
      | Some m \<Rightarrow> Some (case field m of None \<Rightarrow> dflt | Some s \<Rightarrow> s))"

text \<open>
  Each printer returns the strings it prints, one for each \<open>print\<close>. In
  \<open>print_platforms\<close> (line 126) the test \<open>if pt\<close> holds when \<open>pt\<close> is a message and
  fails when it is \<open>None\<close>.
\<close>

definition print_platforms :: "'d runtime \<Rightarrow> platform_definition list \<Rightarrow> string \<Rightarrow> string list" where
  "print_platforms rt ps indent =
     (indent @ ''Platforms:'') #
     map (\<lambda>p.
       let pt = getattr_message
                  (getattr_message
                     (getattr_message (Some p) coordinates default_motion)
                     ecef_fixed default_point_axes)
                  point default_cartesian;
           coord = (case pt of
                      None \<Rightarrow> ''n/a''
                    | Some q \<Rightarrow> ''('' @ format_1f rt (x_m q) @ '', '' @ format_1f rt (y_m q)
                                @ '', '' @ format_1f rt (z_m q) @ '') m'')
       in indent @ ''- '' @ name p @ '' ['' @ type_platform p @ ''] coords='' @ coord) ps"


definition print_links :: "bidirectional_link list \<Rightarrow> string \<Rightarrow> string list" where
  "print_links ls indent =
     (indent @ ''Links:'') #
     map (\<lambda>l. indent @ ''- '' @ a_network_node_id l @ ''/'' @ a_tx_interface_id l @ '' <-> ''
              @ b_network_node_id l @ ''/'' @ b_tx_interface_id l) ls"

subsection \<open>The driver: main\<close>








subsection \<open>The driver as the specification describes it\<close>






subsection \<open>The names the constructor resolves\<close>

text \<open>The eight message types of lines 40 to 47, in the order they are resolved.\<close>

definition message_type_names :: "string list" where
  "message_type_names =
     [''aalyria.spacetime.api.common.PlatformDefinition'',
      ''aalyria.spacetime.api.nbi.v1alpha.resources.NetworkNode'',
      ''aalyria.spacetime.api.nbi.v1alpha.resources.NetworkInterface'',
      ''aalyria.spacetime.api.nbi.v1alpha.resources.BidirectionalLink'',
      ''aalyria.spacetime.api.common.TransceiverModelId'',
      ''aalyria.spacetime.api.nbi.v1alpha.ClearScenarioRequest'',
      ''aalyria.spacetime.api.nbi.v1alpha.GetScenarioRequest'',
      ''aalyria.spacetime.api.nbi.v1alpha.ScenarioSnapshot'']"

subsection \<open>Concrete inputs\<close>

text \<open>
  A descriptor set that declares everything the client resolves (descriptors are
  numbered), one that declares nothing, and a snapshot with two platforms, one of
  them with no coordinates set.
\<close>

definition demo_pool :: "nat descriptor_pool" where
  "demo_pool =
     \<lparr>message_types = zip message_type_names [0, 1, 2, 3, 4, 5, 6, 7],
      enum_types =
        [(''aalyria.spacetime.api.common.PlatformDefinition.MotionSource'',
          \<lparr>values_by_name = [(''UNKNOWN_SOURCE'', \<lparr>number = 0\<rparr>)]\<rparr>)]\<rparr>"

definition empty_pool :: "nat descriptor_pool" where
  "empty_pool = \<lparr>message_types = [], enum_types = []\<rparr>"

definition demo_platforms :: "platform_definition list" where
  "demo_platforms =
     [\<lparr>name = ''a'', type_platform = ''SATELLITE'', motion_source = 0, coordinates = None\<rparr>,
      \<lparr>name = ''b'', type_platform = ''GROUND_STATION'', motion_source = 0,
       coordinates = Some \<lparr>ecef_fixed = Some \<lparr>point = Some \<lparr>x_m = Num 6372000, y_m = Num 0, z_m = Num 0\<rparr>\<rparr>\<rparr>\<rparr>]"

definition demo_snapshot :: scenario_snapshot where
  "demo_snapshot = \<lparr>platforms = demo_platforms, nodes = [], links = []\<rparr>"

text \<open>
  A runtime whose server answers every call, and whose parser yields the snapshot
  above for the snapshot class and an empty message for every other class; and the
  same runtime with a server that is unreachable.
\<close>

definition demo_rt :: "nat runtime" where
  "demo_rt =
     \<lparr>insecure_channel = (\<lambda>ep hist c. Inr ''ok''),
      load_descriptor_set = (\<lambda>path. Inr demo_pool),
      SerializeToString = (\<lambda>m. ''req''),
      ParseFromString =
        (\<lambda>m data. Inr (if cls m = Prototype 7 then ScenarioSnapshotB demo_snapshot else Blank)),
      format_1f = (\<lambda>x. if x = Num 0 then ''0.0'' else ''6372000.0'')\<rparr>"



definition bare_rt :: "nat runtime" where
  "bare_rt = demo_rt\<lparr>load_descriptor_set := (\<lambda>path. Inr empty_pool)\<rparr>"


text \<open>The client the constructor builds from \<open>demo_rt\<close>, and a fresh process around it.\<close>

definition demo_client :: "nat DynamicNBI" where
  "demo_client =
     \<lparr>channel = (\<lambda>hist c. Inr ''ok''), timeout = Num 10, pool = demo_pool,
      factory = MessageFactory demo_pool,
      PlatformDefinition = Prototype 0, NetworkNode = Prototype 1,
      NetworkInterface = Prototype 2, BidirectionalLink = Prototype 3,
      TransceiverModelId = Prototype 4, ClearScenarioRequest = Prototype 5,
      GetScenarioRequest = Prototype 6, ScenarioSnapshot = Prototype 7,
      motion_unknown = 0\<rparr>"

definition demo_world :: "nat world" where
  "demo_world = \<lparr>self = demo_client, sent = [], stdout = []\<rparr>"

section \<open>Properties\<close>

subsection \<open>Auxiliary facts\<close>

lemma bind_err_Inl [simp]: "bind_err (Inl e) f = Inl e"
  by (simp add: bind_err_def)

lemma bind_err_Inr [simp]: "bind_err (Inr x) f = f x"
  by (simp add: bind_err_def)

lemma bind_err_eq_Inr: "bind_err m f = Inr y \<longleftrightarrow> (\<exists>x. m = Inr x \<and> f x = Inr y)"
  by (cases m) simp_all

lemma bind_err_eq_Inl:
  "bind_err m f = Inl e \<longleftrightarrow> m = Inl e \<or> (\<exists>x. m = Inr x \<and> f x = Inl e)"
  by (cases m) simp_all

lemma DynamicNBI_msg_absent:
  "map_of (message_types p) n = None \<Longrightarrow> DynamicNBI_msg p fac n = Inl (SchemaLookupError n)"
  by (simp add: DynamicNBI_msg_def FindMessageTypeByName_def)

lemma DynamicNBI_msg_present:
  "map_of (message_types p) n = Some d \<Longrightarrow> DynamicNBI_msg p fac n = Inr (Prototype d)"
  by (simp add: DynamicNBI_msg_def FindMessageTypeByName_def GetPrototype_def)

lemma DynamicNBI_msg_Inr_D:
  "DynamicNBI_msg p fac n = Inr h \<Longrightarrow> \<exists>d. map_of (message_types p) n = Some d \<and> h = Prototype d"
  by (cases "map_of (message_types p) n")
    (simp_all add: DynamicNBI_msg_absent DynamicNBI_msg_present)

lemma DynamicNBI_msg_Inl_D: "DynamicNBI_msg p fac n = Inl e \<Longrightarrow> e = SchemaLookupError n"
  by (cases "map_of (message_types p) n")
    (simp_all add: DynamicNBI_msg_absent DynamicNBI_msg_present)

lemma FindEnumTypeByName_Inl_D: "FindEnumTypeByName p n = Inl e \<Longrightarrow> e = SchemaLookupError n"
  by (cases "map_of (enum_types p) n") (simp_all add: FindEnumTypeByName_def)

lemma getitem_Inl_D: "getitem d k = Inl e \<Longrightarrow> e = SchemaLookupError k"
  by (cases "map_of d k") (simp_all add: getitem_def)

text \<open>A client is returned only when all eight names resolve, and then it holds their handles.\<close>

lemma init_Inr_D:
  assumes "DynamicNBI_init rt ch path t = Inr c"
  shows "\<exists>p ds. load_descriptor_set rt path = Inr p
           \<and> map (map_of (message_types p)) message_type_names = map Some ds
           \<and> [PlatformDefinition c, NetworkNode c, NetworkInterface c, BidirectionalLink c,
              TransceiverModelId c, ClearScenarioRequest c, GetScenarioRequest c,
              ScenarioSnapshot c] = map Prototype ds"
proof -
  from assms obtain p d1 d2 d3 d4 d5 d6 d7 d8 where
    "load_descriptor_set rt path = Inr p"
    "map (map_of (message_types p)) message_type_names = map Some [d1, d2, d3, d4, d5, d6, d7, d8]"
    "[PlatformDefinition c, NetworkNode c, NetworkInterface c, BidirectionalLink c,
      TransceiverModelId c, ClearScenarioRequest c, GetScenarioRequest c,
      ScenarioSnapshot c] = map Prototype [d1, d2, d3, d4, d5, d6, d7, d8]"
    unfolding DynamicNBI_init_def Let_def bind_err_eq_Inr message_type_names_def
    by (auto dest!: DynamicNBI_msg_Inr_D)
  then have "load_descriptor_set rt path = Inr p
      \<and> map (map_of (message_types p)) message_type_names
          = map Some [d1, d2, d3, d4, d5, d6, d7, d8]
      \<and> [PlatformDefinition c, NetworkNode c, NetworkInterface c, BidirectionalLink c,
         TransceiverModelId c, ClearScenarioRequest c, GetScenarioRequest c,
         ScenarioSnapshot c] = map Prototype [d1, d2, d3, d4, d5, d6, d7, d8]"
    by (intro conjI)
  then show ?thesis
    by (rule_tac x = p in exI, rule_tac x = "[d1, d2, d3, d4, d5, d6, d7, d8]" in exI)
qed

text \<open>Once the descriptor set is loaded, the constructor raises nothing but lookup errors.\<close>

lemma init_Inl_D:
  assumes "DynamicNBI_init rt ch path t = Inl e" and "load_descriptor_set rt path = Inr p"
  shows "\<exists>m. e = SchemaLookupError m"
  using assms unfolding DynamicNBI_init_def Let_def bind_err_eq_Inl
  by (auto dest: DynamicNBI_msg_Inl_D FindEnumTypeByName_Inl_D getitem_Inl_D)

lemma init_absent_message:
  assumes "load_descriptor_set rt path = Inr p"
    and "n \<in> set message_type_names"
    and "map_of (message_types p) n = None"
  shows "\<exists>m. DynamicNBI_init rt ch path t = Inl (SchemaLookupError m)"
proof (cases "DynamicNBI_init rt ch path t")
  case (Inl e)
  with assms(1) show ?thesis by (auto dest: init_Inl_D)
next
  case (Inr c)
  from init_Inr_D [OF Inr] assms(1) obtain ds where
    "map (map_of (message_types p)) message_type_names = map Some ds" by auto
  then have "map_of (message_types p) n \<in> set (map Some ds)"
    using assms(2) by (metis image_eqI list.set_map)
  with assms(3) show ?thesis by auto
qed

lemma init_demo: "DynamicNBI_init demo_rt (\<lambda>hist c. Inr ''ok'') ''nbi_descriptor.pb'' (Num 10) = Inr demo_client"
  by (simp add: DynamicNBI_init_def demo_rt_def demo_pool_def message_type_names_def
      DynamicNBI_msg_def FindMessageTypeByName_def FindEnumTypeByName_def getitem_def
      GetPrototype_def demo_client_def)

text \<open>One invocation of \<open>_unary\<close>, spelled out.\<close>

lemma DynamicNBI_unary_eq:
  "DynamicNBI_unary rt m req rc w =
     (case channel (self w) (sent w)
             \<lparr>method_path = m, request = req, wire = SerializeToString rt req,
              deadline = timeout (self w)\<rparr> of
        Inl e \<Rightarrow> Inl e
      | Inr data \<Rightarrow>
          (case DynamicNBI_parse rt rc data of
             Inl e \<Rightarrow> Inl (RpcError 13 ''Exception deserializing response!'')
           | Inr resp \<Rightarrow> Inr resp),
      w\<lparr>sent := sent w @ [\<lparr>method_path = m, request = req, wire = SerializeToString rt req,
                             deadline = timeout (self w)\<rparr>]\<rparr>)"
  by (simp add: DynamicNBI_unary_def unary_unary_def Let_def)

lemma DynamicNBI_unary_snd:
  "snd (DynamicNBI_unary rt m req rc w) =
     w\<lparr>sent := sent w @ [\<lparr>method_path = m, request = req, wire = SerializeToString rt req,
                            deadline = timeout (self w)\<rparr>]\<rparr>"
  by (simp add: DynamicNBI_unary_eq)

lemma clear_scenario_snd:
  "snd (clear_scenario rt w) =
     snd (DynamicNBI_unary rt ''/aalyria.spacetime.api.nbi.v1alpha.ScenarioService/ClearScenario''
            (new (ClearScenarioRequest (self w))) Empty_pb2 w)"
  by (simp add: clear_scenario_def split: prod.splits sum.splits)

subsection \<open>Schema lookup\<close>

text \<open>
  Claim C2. Resolving a message-type name that the loaded descriptor set does not
  declare fails with the lookup error for that name, and no handle is returned;
  resolving a declared name returns the class made from its descriptor. The same
  holds for an undeclared enum and for an undeclared value name of an enum. At the
  level of the constructor: if one of the eight names it resolves is undeclared, it
  raises a lookup error and no client exists; when it returns a client, each of the
  eight handles of the client is the class of the descriptor declared under its name.
\<close>

theorem schema_lookup:
  "(map_of (message_types p) n = None \<longrightarrow> DynamicNBI_msg p fac n = Inl (SchemaLookupError n))
   \<and> (map_of (message_types p) n' = Some d \<longrightarrow> DynamicNBI_msg p fac n' = Inr (Prototype d))
   \<and> (map_of (enum_types p) en = None \<longrightarrow> FindEnumTypeByName p en = Inl (SchemaLookupError en))
   \<and> (map_of (values_by_name ed) vn = None \<longrightarrow>
        getitem (values_by_name ed) vn = Inl (SchemaLookupError vn))
   \<and> (load_descriptor_set rt path = Inr q \<and> k \<in> set message_type_names
        \<and> map_of (message_types q) k = None \<longrightarrow>
        (\<exists>m. DynamicNBI_init rt ch path t = Inl (SchemaLookupError m)))
   \<and> (DynamicNBI_init rt' ch' path' t' = Inr c \<longrightarrow>
        (\<exists>p' ds. load_descriptor_set rt' path' = Inr p'
           \<and> map (map_of (message_types p')) message_type_names = map Some ds
           \<and> [PlatformDefinition c, NetworkNode c, NetworkInterface c, BidirectionalLink c,
              TransceiverModelId c, ClearScenarioRequest c, GetScenarioRequest c,
              ScenarioSnapshot c] = map Prototype ds))"
proof (intro conjI impI)
  assume "map_of (message_types p) n = None"
  then show "DynamicNBI_msg p fac n = Inl (SchemaLookupError n)"
    by (rule DynamicNBI_msg_absent)
next
  assume "map_of (message_types p) n' = Some d"
  then show "DynamicNBI_msg p fac n' = Inr (Prototype d)"
    by (rule DynamicNBI_msg_present)
next
  assume "map_of (enum_types p) en = None"
  then show "FindEnumTypeByName p en = Inl (SchemaLookupError en)"
    by (simp add: FindEnumTypeByName_def)
next
  assume "map_of (values_by_name ed) vn = None"
  then show "getitem (values_by_name ed) vn = Inl (SchemaLookupError vn)"
    by (simp add: getitem_def)
next
  assume "load_descriptor_set rt path = Inr q \<and> k \<in> set message_type_names
    \<and> map_of (message_types q) k = None"
  then show "\<exists>m. DynamicNBI_init rt ch path t = Inl (SchemaLookupError m)"
    by (blast intro: init_absent_message)
next
  assume "DynamicNBI_init rt' ch' path' t' = Inr c"
  then show "\<exists>p' ds. load_descriptor_set rt' path' = Inr p'
           \<and> map (map_of (message_types p')) message_type_names = map Some ds
           \<and> [PlatformDefinition c, NetworkNode c, NetworkInterface c, BidirectionalLink c,
              TransceiverModelId c, ClearScenarioRequest c, GetScenarioRequest c,
              ScenarioSnapshot c] = map Prototype ds"
    by (rule init_Inr_D)
qed

theorem schema_lookup_witness:
  "DynamicNBI_msg demo_pool (MessageFactory demo_pool) ''no.such.Message''
     = Inl (SchemaLookupError ''no.such.Message'')
   \<and> DynamicNBI_msg demo_pool (MessageFactory demo_pool)
       ''aalyria.spacetime.api.nbi.v1alpha.resources.NetworkNode'' = Inr (Prototype 1)
   \<and> FindEnumTypeByName demo_pool ''no.such.Enum'' = Inl (SchemaLookupError ''no.such.Enum'')
   \<and> getitem [(''UNKNOWN_SOURCE'', \<lparr>number = 0\<rparr>)] ''NO_SUCH_VALUE''
       = Inl (SchemaLookupError ''NO_SUCH_VALUE'')
   \<and> (\<exists>m. DynamicNBI_init bare_rt (\<lambda>hist c. Inr ''ok'') ''nbi_descriptor.pb'' (Num 10)
          = Inl (SchemaLookupError m))
   \<and> (\<exists>p' ds. load_descriptor_set demo_rt ''nbi_descriptor.pb'' = Inr p'
         \<and> map (map_of (message_types p')) message_type_names = map Some ds
         \<and> [PlatformDefinition demo_client, NetworkNode demo_client,
            NetworkInterface demo_client, BidirectionalLink demo_client,
            TransceiverModelId demo_client, ClearScenarioRequest demo_client,
            GetScenarioRequest demo_client, ScenarioSnapshot demo_client] = map Prototype ds)"
proof -
  have h1: "map_of (message_types demo_pool) ''no.such.Message'' = None"
    by (simp add: demo_pool_def message_type_names_def)
  have h2: "map_of (message_types demo_pool)
      ''aalyria.spacetime.api.nbi.v1alpha.resources.NetworkNode'' = Some 1"
    by (simp add: demo_pool_def message_type_names_def)
  have h3: "map_of (enum_types demo_pool) ''no.such.Enum'' = None"
    by (simp add: demo_pool_def)
  have h4: "map_of (values_by_name \<lparr>values_by_name = [(''UNKNOWN_SOURCE'', \<lparr>number = 0\<rparr>)]\<rparr>)
      ''NO_SUCH_VALUE'' = None"
    by simp
  have h5: "load_descriptor_set bare_rt ''nbi_descriptor.pb'' = Inr empty_pool
      \<and> ''aalyria.spacetime.api.nbi.v1alpha.ScenarioSnapshot'' \<in> set message_type_names
      \<and> map_of (message_types empty_pool) ''aalyria.spacetime.api.nbi.v1alpha.ScenarioSnapshot'' = None"
    by (simp add: bare_rt_def empty_pool_def message_type_names_def)
  note h6 = init_demo
  from schema_lookup [of demo_pool "''no.such.Message''" "MessageFactory demo_pool"
      "''aalyria.spacetime.api.nbi.v1alpha.resources.NetworkNode''" 1 "''no.such.Enum''"
      "\<lparr>values_by_name = [(''UNKNOWN_SOURCE'', \<lparr>number = 0\<rparr>)]\<rparr>" "''NO_SUCH_VALUE''"
      bare_rt "''nbi_descriptor.pb''" empty_pool
      "''aalyria.spacetime.api.nbi.v1alpha.ScenarioSnapshot''"
      "\<lambda>hist c. Inr ''ok''" "Num 10"
      demo_rt "\<lambda>hist c. Inr ''ok''" "''nbi_descriptor.pb''" "Num 10" demo_client]
    h1 h2 h3 h4 h5 h6
  show ?thesis by simp
qed

subsection \<open>The platform printer\<close>

text \<open>
  Claim C4 says that a platform whose coordinate is missing is printed with the
  placeholder n/a. The printer does not do that. Reading a sub-message that is not set
  yields its default instance, never \<open>None\<close>, so the test \<open>if pt\<close> always holds: every
  platform is printed with three formatted numbers, those of the point that was read,
  and a platform with no coordinates set is printed with three zeros. The facts
  below give the output for every list of platforms, for a platform with no
  coordinates, and for one such platform with the formatting fixed.
\<close>

theorem print_platforms_unset_coordinate:
  "print_platforms rt ps indent =
     (indent @ ''Platforms:'') #
     map (\<lambda>p.
       let q = (case coordinates p of
                  None \<Rightarrow> default_cartesian
                | Some c \<Rightarrow>
                    (case ecef_fixed c of
                       None \<Rightarrow> default_cartesian
                     | Some f \<Rightarrow>
                         (case point f of
                            None \<Rightarrow> default_cartesian
                          | Some q \<Rightarrow> q)))
       in indent @ ''- '' @ name p @ '' ['' @ type_platform p @ ''] coords=(''
            @ format_1f rt (x_m q) @ '', '' @ format_1f rt (y_m q) @ '', ''
            @ format_1f rt (z_m q) @ '') m'') ps
   \<and> print_platforms rt
         [\<lparr>name = n, type_platform = t, motion_source = ms, coordinates = None\<rparr>] indent
       = [indent @ ''Platforms:'',
          indent @ ''- '' @ n @ '' ['' @ t @ ''] coords=('' @ format_1f rt (Num 0) @ '', ''
            @ format_1f rt (Num 0) @ '', '' @ format_1f rt (Num 0) @ '') m'']
   \<and> print_platforms demo_rt
         [\<lparr>name = ''a'', type_platform = ''SATELLITE'', motion_source = 0, coordinates = None\<rparr>]
         ''  ''
       = [''  Platforms:'', ''  - a [SATELLITE] coords=(0.0, 0.0, 0.0) m'']"
proof (intro conjI)
  show "print_platforms rt ps indent =
     (indent @ ''Platforms:'') #
     map (\<lambda>p.
       let q = (case coordinates p of
                  None \<Rightarrow> default_cartesian
                | Some c \<Rightarrow>
                    (case ecef_fixed c of
                       None \<Rightarrow> default_cartesian
                     | Some f \<Rightarrow>
                         (case point f of
                            None \<Rightarrow> default_cartesian
                          | Some q \<Rightarrow> q)))
       in indent @ ''- '' @ name p @ '' ['' @ type_platform p @ ''] coords=(''
            @ format_1f rt (x_m q) @ '', '' @ format_1f rt (y_m q) @ '', ''
            @ format_1f rt (z_m q) @ '') m'') ps"
    by (simp add: print_platforms_def getattr_message_def default_motion_def
        default_point_axes_def Let_def split: option.splits)
next
  show "print_platforms rt
         [\<lparr>name = n, type_platform = t, motion_source = ms, coordinates = None\<rparr>] indent
       = [indent @ ''Platforms:'',
          indent @ ''- '' @ n @ '' ['' @ t @ ''] coords=('' @ format_1f rt (Num 0) @ '', ''
            @ format_1f rt (Num 0) @ '', '' @ format_1f rt (Num 0) @ '') m'']"
    by (simp add: print_platforms_def getattr_message_def default_motion_def
        default_point_axes_def default_cartesian_def)
next
  show "print_platforms demo_rt
         [\<lparr>name = ''a'', type_platform = ''SATELLITE'', motion_source = 0, coordinates = None\<rparr>]
         ''  ''
       = [''  Platforms:'', ''  - a [SATELLITE] coords=(0.0, 0.0, 0.0) m'']"
    by (simp add: print_platforms_def getattr_message_def default_motion_def
        default_point_axes_def default_cartesian_def demo_rt_def)
qed

subsection \<open>The wrappers leave the client alone\<close>

text \<open>
  Claim C7. No wrapper changes the client object: after clear scenario, create
  platform, create node, create link and get snapshot, whatever the channel answers,
  the client (its pool, factory, message classes, enum value, channel and timeout) is
  the one the call started with.
\<close>

theorem wrappers_keep_client:
  "self (snd (clear_scenario rt w)) = self w
   \<and> self (snd (create_platform rt nm typ coords w)) = self w
   \<and> self (snd (create_node rt nid pid iid tid w)) = self w
   \<and> self (snd (create_link rt a_node a_iface b_node b_iface w)) = self w
   \<and> self (snd (get_scenario rt w)) = self w"
  by (simp add: clear_scenario_snd create_platform_def create_node_def create_link_def
      get_scenario_def DynamicNBI_unary_snd Let_def)

subsection \<open>The messages the wrappers build\<close>

text \<open>
  Claim C8. Every invocation of the create-link wrapper sends one request, a link
  message whose receive interface equals its transmit interface on each endpoint:
  both are the single interface argument given for that endpoint.
\<close>

theorem create_link_same_interfaces:
  "\<exists>l c. sent (snd (create_link rt a_node a_iface b_node b_iface w)) = sent w @ [c]
     \<and> body (request c) = BidirectionalLinkB l
     \<and> a_rx_interface_id l = a_tx_interface_id l
     \<and> b_rx_interface_id l = b_tx_interface_id l
     \<and> a_tx_interface_id l = a_iface \<and> b_tx_interface_id l = b_iface
     \<and> a_network_node_id l = a_node \<and> b_network_node_id l = b_node"
  by (simp add: create_link_def DynamicNBI_unary_snd Let_def)

text \<open>
  Claim C9. Every invocation of the create-node wrapper sends one request, a node
  message whose type is the literal ROUTER whatever the arguments, and which has
  exactly one interface, carrying the interface id, the platform id and the
  transceiver-model id given as arguments.
\<close>

theorem create_node_router_one_interface:
  "\<exists>n i c. sent (snd (create_node rt nid pid iid tid w)) = sent w @ [c]
     \<and> body (request c) = NetworkNodeB n
     \<and> node_id n = nid
     \<and> type_node n = ''ROUTER''
     \<and> node_interface n = [i]
     \<and> interface_id i = iid
     \<and> platform (wireless i) = pid
     \<and> transceiver_model_id_w (wireless i) = Some \<lparr>transceiver_model_id = tid\<rparr>"
  by (simp add: create_node_def DynamicNBI_unary_snd Let_def)

subsection \<open>The link printer\<close>

text \<open>
  Claim C10. The link printer prints a heading and then, for each link, the line
  a\_node/a\_tx <-> b\_node/b\_tx after the indent and a dash. The receive-interface
  ids play no part: replacing them by anything leaves the output unchanged.
\<close>

theorem print_links_tx_only:
  "print_links ls indent =
     (indent @ ''Links:'') #
     map (\<lambda>l. indent @ ''- '' @ a_network_node_id l @ ''/'' @ a_tx_interface_id l @ '' <-> ''
              @ b_network_node_id l @ ''/'' @ b_tx_interface_id l) ls
   \<and> print_links (map (\<lambda>l. l\<lparr>a_rx_interface_id := ra l, b_rx_interface_id := rb l\<rparr>) ls) indent
     = print_links ls indent"
  by (simp add: print_links_def comp_def)

lemma DynamicNBI_parse_eq:
  "DynamicNBI_parse rt rc data =
     (case ParseFromString rt (new rc) data of
        Inl e \<Rightarrow> Inl e
      | Inr b \<Rightarrow> Inr \<lparr>cls = rc, body = b\<rparr>)"
  by (simp add: DynamicNBI_parse_def new_def Let_def split: sum.splits)

lemma clear_scenario_fst:
  "fst (clear_scenario rt w) =
     (case fst (DynamicNBI_unary rt
                 ''/aalyria.spacetime.api.nbi.v1alpha.ScenarioService/ClearScenario''
                 (new (ClearScenarioRequest (self w))) Empty_pb2 w) of
        Inl e \<Rightarrow> Inl e
      | Inr m \<Rightarrow> Inr None)"
  by (simp add: clear_scenario_def split: prod.splits sum.splits)

lemma DynamicNBI_unary_single:
  "\<exists>c. snd (DynamicNBI_unary rt m req rc w) = w\<lparr>sent := sent w @ [c]\<rparr>
     \<and> method_path c = m
     \<and> request c = req
     \<and> wire c = SerializeToString rt (request c)
     \<and> deadline c = timeout (self w)
     \<and> fst (DynamicNBI_unary rt m req rc w) =
         (case channel (self w) (sent w) c of
            Inl e \<Rightarrow> Inl e
          | Inr data \<Rightarrow>
              (case ParseFromString rt (new rc) data of
                 Inl e \<Rightarrow> Inl (RpcError 13 ''Exception deserializing response!'')
               | Inr b \<Rightarrow> Inr \<lparr>cls = rc, body = b\<rparr>))"
  by (rule exI [of _ "\<lparr>method_path = m, request = req, wire = SerializeToString rt req,
        deadline = timeout (self w)\<rparr>"])
    (simp add: DynamicNBI_unary_eq DynamicNBI_parse_eq split: sum.splits)

subsection \<open>One call for each wrapper invocation\<close>

text \<open>
  Claim C5, as amended. Every invocation of a wrapper adds exactly one call to the
  calls made on the channel, whatever the channel answers (there is no retry): the call
  carries the wrapper's method path, the serialized request and the client's timeout.
  An error of the channel is raised as it is. Response bytes are parsed into a fresh
  instance of the wrapper's response class; when they do not parse, the call raises
  the INTERNAL error of gRPC. Create platform, create node, create link and get
  snapshot return the parsed instance, whereas clear scenario parses the response
  into a fresh instance of Empty, discards it and returns None.
\<close>

theorem wrappers_single_call:
  "(\<exists>c. snd (clear_scenario rt w) = w\<lparr>sent := sent w @ [c]\<rparr>
      \<and> method_path c = ''/aalyria.spacetime.api.nbi.v1alpha.ScenarioService/ClearScenario''
      \<and> request c = new (ClearScenarioRequest (self w))
      \<and> wire c = SerializeToString rt (request c)
      \<and> deadline c = timeout (self w)
      \<and> fst (clear_scenario rt w) =
          (case channel (self w) (sent w) c of
             Inl e \<Rightarrow> Inl e
           | Inr data \<Rightarrow>
               (case ParseFromString rt (new Empty_pb2) data of
                  Inl e \<Rightarrow> Inl (RpcError 13 ''Exception deserializing response!'')
                | Inr b \<Rightarrow> Inr None)))
   \<and> (\<exists>c. snd (create_platform rt nm typ xyz w) = w\<lparr>sent := sent w @ [c]\<rparr>
      \<and> method_path c = ''/aalyria.spacetime.api.nbi.v1alpha.PlatformService/CreatePlatform''
      \<and> wire c = SerializeToString rt (request c)
      \<and> deadline c = timeout (self w)
      \<and> fst (create_platform rt nm typ xyz w) =
          (case channel (self w) (sent w) c of
             Inl e \<Rightarrow> Inl e
           | Inr data \<Rightarrow>
               (case ParseFromString rt (new (PlatformDefinition (self w))) data of
                  Inl e \<Rightarrow> Inl (RpcError 13 ''Exception deserializing response!'')
                | Inr b \<Rightarrow> Inr \<lparr>cls = PlatformDefinition (self w), body = b\<rparr>)))
   \<and> (\<exists>c. snd (create_node rt nid pid iid tid w) = w\<lparr>sent := sent w @ [c]\<rparr>
      \<and> method_path c = ''/aalyria.spacetime.api.nbi.v1alpha.NetworkNodeService/CreateNode''
      \<and> wire c = SerializeToString rt (request c)
      \<and> deadline c = timeout (self w)
      \<and> fst (create_node rt nid pid iid tid w) =
          (case channel (self w) (sent w) c of
             Inl e \<Rightarrow> Inl e
           | Inr data \<Rightarrow>
               (case ParseFromString rt (new (NetworkNode (self w))) data of
                  Inl e \<Rightarrow> Inl (RpcError 13 ''Exception deserializing response!'')
                | Inr b \<Rightarrow> Inr \<lparr>cls = NetworkNode (self w), body = b\<rparr>)))
   \<and> (\<exists>c. snd (create_link rt a_node a_iface b_node b_iface w) = w\<lparr>sent := sent w @ [c]\<rparr>
      \<and> method_path c = ''/aalyria.spacetime.api.nbi.v1alpha.NetworkLinkService/CreateLink''
      \<and> wire c = SerializeToString rt (request c)
      \<and> deadline c = timeout (self w)
      \<and> fst (create_link rt a_node a_iface b_node b_iface w) =
          (case channel (self w) (sent w) c of
             Inl e \<Rightarrow> Inl e
           | Inr data \<Rightarrow>
               (case ParseFromString rt (new (BidirectionalLink (self w))) data of
                  Inl e \<Rightarrow> Inl (RpcError 13 ''Exception deserializing response!'')
                | Inr b \<Rightarrow> Inr \<lparr>cls = BidirectionalLink (self w), body = b\<rparr>)))
   \<and> (\<exists>c. snd (get_scenario rt w) = w\<lparr>sent := sent w @ [c]\<rparr>
      \<and> method_path c = ''/aalyria.spacetime.api.nbi.v1alpha.ScenarioService/GetScenario''
      \<and> request c = new (GetScenarioRequest (self w))
      \<and> wire c = SerializeToString rt (request c)
      \<and> deadline c = timeout (self w)
      \<and> fst (get_scenario rt w) =
          (case channel (self w) (sent w) c of
             Inl e \<Rightarrow> Inl e
           | Inr data \<Rightarrow>
               (case ParseFromString rt (new (ScenarioSnapshot (self w))) data of
                  Inl e \<Rightarrow> Inl (RpcError 13 ''Exception deserializing response!'')
                | Inr b \<Rightarrow> Inr \<lparr>cls = ScenarioSnapshot (self w), body = b\<rparr>)))"
proof (intro conjI)
  from DynamicNBI_unary_single [of rt
      "''/aalyria.spacetime.api.nbi.v1alpha.ScenarioService/ClearScenario''"
      "new (ClearScenarioRequest (self w))" Empty_pb2 w]
  obtain c where c:
    "snd (DynamicNBI_unary rt ''/aalyria.spacetime.api.nbi.v1alpha.ScenarioService/ClearScenario''
       (new (ClearScenarioRequest (self w))) Empty_pb2 w) = w\<lparr>sent := sent w @ [c]\<rparr>"
    "method_path c = ''/aalyria.spacetime.api.nbi.v1alpha.ScenarioService/ClearScenario''"
    "request c = new (ClearScenarioRequest (self w))"
    "wire c = SerializeToString rt (request c)"
    "deadline c = timeout (self w)"
    "fst (DynamicNBI_unary rt ''/aalyria.spacetime.api.nbi.v1alpha.ScenarioService/ClearScenario''
       (new (ClearScenarioRequest (self w))) Empty_pb2 w) =
         (case channel (self w) (sent w) c of
            Inl e \<Rightarrow> Inl e
          | Inr data \<Rightarrow>
              (case ParseFromString rt (new Empty_pb2) data of
                 Inl e \<Rightarrow> Inl (RpcError 13 ''Exception deserializing response!'')
               | Inr b \<Rightarrow> Inr \<lparr>cls = Empty_pb2, body = b\<rparr>))"
    by blast
  show "\<exists>c. snd (clear_scenario rt w) = w\<lparr>sent := sent w @ [c]\<rparr>
      \<and> method_path c = ''/aalyria.spacetime.api.nbi.v1alpha.ScenarioService/ClearScenario''
      \<and> request c = new (ClearScenarioRequest (self w))
      \<and> wire c = SerializeToString rt (request c)
      \<and> deadline c = timeout (self w)
      \<and> fst (clear_scenario rt w) =
          (case channel (self w) (sent w) c of
             Inl e \<Rightarrow> Inl e
           | Inr data \<Rightarrow>
               (case ParseFromString rt (new Empty_pb2) data of
                  Inl e \<Rightarrow> Inl (RpcError 13 ''Exception deserializing response!'')
                | Inr b \<Rightarrow> Inr None))"
    using c by (intro exI [of _ c]) (simp add: clear_scenario_snd clear_scenario_fst split: sum.splits)
next
  show "\<exists>c. snd (create_platform rt nm typ xyz w) = w\<lparr>sent := sent w @ [c]\<rparr>
      \<and> method_path c = ''/aalyria.spacetime.api.nbi.v1alpha.PlatformService/CreatePlatform''
      \<and> wire c = SerializeToString rt (request c)
      \<and> deadline c = timeout (self w)
      \<and> fst (create_platform rt nm typ xyz w) =
          (case channel (self w) (sent w) c of
             Inl e \<Rightarrow> Inl e
           | Inr data \<Rightarrow>
               (case ParseFromString rt (new (PlatformDefinition (self w))) data of
                  Inl e \<Rightarrow> Inl (RpcError 13 ''Exception deserializing response!'')
                | Inr b \<Rightarrow> Inr \<lparr>cls = PlatformDefinition (self w), body = b\<rparr>))"
    unfolding create_platform_def Let_def
    using DynamicNBI_unary_single [of rt _ _ "PlatformDefinition (self w)" w] by blast
next
  show "\<exists>c. snd (create_node rt nid pid iid tid w) = w\<lparr>sent := sent w @ [c]\<rparr>
      \<and> method_path c = ''/aalyria.spacetime.api.nbi.v1alpha.NetworkNodeService/CreateNode''
      \<and> wire c = SerializeToString rt (request c)
      \<and> deadline c = timeout (self w)
      \<and> fst (create_node rt nid pid iid tid w) =
          (case channel (self w) (sent w) c of
             Inl e \<Rightarrow> Inl e
           | Inr data \<Rightarrow>
               (case ParseFromString rt (new (NetworkNode (self w))) data of
                  Inl e \<Rightarrow> Inl (RpcError 13 ''Exception deserializing response!'')
                | Inr b \<Rightarrow> Inr \<lparr>cls = NetworkNode (self w), body = b\<rparr>))"
    unfolding create_node_def Let_def
    using DynamicNBI_unary_single [of rt _ _ "NetworkNode (self w)" w] by blast
next
  show "\<exists>c. snd (create_link rt a_node a_iface b_node b_iface w) = w\<lparr>sent := sent w @ [c]\<rparr>
      \<and> method_path c = ''/aalyria.spacetime.api.nbi.v1alpha.NetworkLinkService/CreateLink''
      \<and> wire c = SerializeToString rt (request c)
      \<and> deadline c = timeout (self w)
      \<and> fst (create_link rt a_node a_iface b_node b_iface w) =
          (case channel (self w) (sent w) c of
             Inl e \<Rightarrow> Inl e
           | Inr data \<Rightarrow>
               (case ParseFromString rt (new (BidirectionalLink (self w))) data of
                  Inl e \<Rightarrow> Inl (RpcError 13 ''Exception deserializing response!'')
                | Inr b \<Rightarrow> Inr \<lparr>cls = BidirectionalLink (self w), body = b\<rparr>))"
    unfolding create_link_def Let_def
    using DynamicNBI_unary_single [of rt _ _ "BidirectionalLink (self w)" w] by blast
next
  show "\<exists>c. snd (get_scenario rt w) = w\<lparr>sent := sent w @ [c]\<rparr>
      \<and> method_path c = ''/aalyria.spacetime.api.nbi.v1alpha.ScenarioService/GetScenario''
      \<and> request c = new (GetScenarioRequest (self w))
      \<and> wire c = SerializeToString rt (request c)
      \<and> deadline c = timeout (self w)
      \<and> fst (get_scenario rt w) =
          (case channel (self w) (sent w) c of
             Inl e \<Rightarrow> Inl e
           | Inr data \<Rightarrow>
               (case ParseFromString rt (new (ScenarioSnapshot (self w))) data of
                  Inl e \<Rightarrow> Inl (RpcError 13 ''Exception deserializing response!'')
                | Inr b \<Rightarrow> Inr \<lparr>cls = ScenarioSnapshot (self w), body = b\<rparr>))"
    unfolding get_scenario_def
    by (rule DynamicNBI_unary_single)
qed

text \<open>
  The claim as stated fails for clear scenario: against a server that answers, the
  response is deserialized into an instance of Empty, and the value returned is None.
\<close>

theorem clear_scenario_discards_response:
  "fst (clear_scenario demo_rt demo_world) = Inr None
   \<and> fst (DynamicNBI_unary demo_rt
            ''/aalyria.spacetime.api.nbi.v1alpha.ScenarioService/ClearScenario''
            (new (ClearScenarioRequest (self demo_world))) Empty_pb2 demo_world)
       = Inr \<lparr>cls = Empty_pb2, body = Blank\<rparr>
   \<and> fst (clear_scenario demo_rt demo_world) \<noteq> Inr (Some \<lparr>cls = Empty_pb2, body = Blank\<rparr>)"
  by (simp add: clear_scenario_fst DynamicNBI_unary_eq DynamicNBI_parse_eq demo_world_def
      demo_client_def demo_rt_def new_def)

text \<open>Facts about the driver's steps.\<close>









subsection \<open>The driver\<close>




end
